theory Spec2Isabelle
  imports Main "HOL-Library.Multiset"
begin

section \<open>Platform values\<close>

text \<open>
  A thrown JavaScript exception: the name of its constructor and its message.
  Every \<^verbatim>\<open>throw new Error(msg)\<close> of the sources is \<open>new_Error msg\<close>; a
  \<^verbatim>\<open>TypeError\<close> is what the runtime raises on a property read of
  \<^verbatim>\<open>undefined\<close>.
\<close>

datatype js_error = Thrown (error_name: string) (error_message: string)

definition new_Error :: "string \<Rightarrow> js_error" where
  "new_Error msg = Thrown ''Error'' msg"

definition TypeError :: "string \<Rightarrow> js_error" where
  "TypeError msg = Thrown ''TypeError'' msg"

text \<open>
  A resolved \<^verbatim>\<open>Response\<close> of the platform's \<^verbatim>\<open>fetch\<close>, at the type the
  call site casts its JSON body to. \<^verbatim>\<open>response.json()\<close> may reject, hence the sum.
  \<^verbatim>\<open>response.ok\<close> is the status being in the range 200 to 299.
\<close>

record 'a response =
  status :: int
  statusText :: string
  json :: "js_error + 'a"

definition ok :: "'a response \<Rightarrow> bool" where
  "ok r = (200 \<le> status r \<and> status r \<le> 299)"

type_synonym headers = "(string \<times> string) list"

text \<open>\<^verbatim>\<open>fetch(url, {headers})\<close>: a rejected promise is \<open>Inl\<close>.\<close>

type_synonym 'a fetch = "string \<Rightarrow> headers \<Rightarrow> js_error + 'a response"

section \<open>Data model (types.ts)\<close>

record ContributionStats =
  totalContributions :: int
  longestStreak :: int
  currentStreak :: int

text \<open>
  An entry of the \<^verbatim>\<open>contributions\<close> array: \<^verbatim>\<open>{ date: string, count: number }\<close>.
  The numbers of the API are counts, integers here, and nothing in the code keeps them
  from being negative.
\<close>

record ContributionDay =
  date :: string
  count :: int

text \<open>
  The body of the contribution API:
  \<^verbatim>\<open>{ total: { "2024": 100, ... }, contributions: [...] }\<close>. A property that the
  body lacks reads as \<^verbatim>\<open>undefined\<close>, here \<open>None\<close>. The \<^verbatim>\<open>total\<close> object
  is the list of its own properties, key and value.
\<close>

record contribution_data =
  total :: "(string \<times> int) list option"
  contributions :: "ContributionDay list option"

section \<open>Contribution statistics (fetchContributionStats)\<close>

text \<open>\<^verbatim>\<open>Object.values(o).reduce((acc, curr) => acc + curr, 0)\<close>\<close>

definition Object_values :: "(string \<times> int) list \<Rightarrow> int list" where
  "Object_values obj = map snd obj"

definition reduce_add :: "int list \<Rightarrow> int" where
  "reduce_add vs = foldl (\<lambda>acc curr. acc + curr) 0 vs"

text \<open>
  \<^verbatim>\<open>contributions.sort((a, b) => new Date(a.date).getTime() - new Date(b.date).getTime())\<close>:
  the array sort is stable, ascending in the comparator, which here compares the
  times of the two dates. \<open>getTime\<close> is the platform's
  \<^verbatim>\<open>new Date(s).getTime()\<close> on the date strings of the body, which the API
  sends as ISO days; a string that is no date (\<^verbatim>\<open>NaN\<close>) is not modelled.
\<close>

definition sort_by_date :: "(string \<Rightarrow> int) \<Rightarrow> ContributionDay list \<Rightarrow> ContributionDay list" where
  "sort_by_date getTime cs = sort_key (\<lambda>c. getTime (date c)) cs"

text \<open>
  The \<^verbatim>\<open>forEach\<close> of lines 57 to 64, on the pair
  \<open>(longestStreak, tempStreak)\<close>.
\<close>

fun forEach_day :: "ContributionDay list \<Rightarrow> int \<times> int \<Rightarrow> int \<times> int" where
  "forEach_day [] (longest, temp) = (longest, temp)"
| "forEach_day (day # days) (longest, temp) =
     (if count day > 0 then forEach_day days (longest, temp + 1)
      else forEach_day days (max longest temp, 0))"

text \<open>
  The backward \<^verbatim>\<open>for\<close> loop of lines 75 to 88. The first argument after the
  array is \<open>i + 1\<close>, so that the loop ends at \<open>0\<close>; the loop reads
  \<open>contributions[i]\<close> only for \<open>i\<close> below the length.
\<close>

fun for_backward :: "string \<Rightarrow> ContributionDay list \<Rightarrow> nat \<Rightarrow> int \<Rightarrow> int" where
  "for_backward today cs 0 activeStreak = activeStreak"
| "for_backward today cs (Suc i) activeStreak =
     (if count (cs ! i) > 0 then for_backward today cs i (activeStreak + 1)
      else if date (cs ! i) = today then for_backward today cs i activeStreak
      else activeStreak)"

text \<open>Lines 44 to 94: the statistics of a body that has both properties.\<close>

definition compute_stats ::
  "(string \<Rightarrow> int) \<Rightarrow> string \<Rightarrow> (string \<times> int) list \<Rightarrow> ContributionDay list \<Rightarrow> ContributionStats" where
  "compute_stats getTime today tot contribs =
     (let total = reduce_add (Object_values tot);
          contributions = sort_by_date getTime contribs;
          (longestStreak, tempStreak) = forEach_day contributions (0, 0);
          longestStreak = max longestStreak tempStreak;
          activeStreak = for_backward today contributions (length contributions) 0
      in \<lparr>totalContributions = total, longestStreak = longestStreak, currentStreak = activeStreak\<rparr>)"

definition zero_stats :: ContributionStats where
  "zero_stats = \<lparr>totalContributions = 0, longestStreak = 0, currentStreak = 0\<rparr>"

text \<open>
  The platform as \<^verbatim>\<open>fetchContributionStats\<close> sees it: \<^verbatim>\<open>fetch\<close>, the date
  parser and the clock (\<open>today\<close> is
  \<^verbatim>\<open>new Date().toISOString().split('T')[0]\<close>).
\<close>

record stats_platform =
  fetch_contributions :: "contribution_data fetch"
  Date_getTime :: "string \<Rightarrow> int"
  today :: string

text \<open>The body of the \<^verbatim>\<open>try\<close> block, lines 34 to 94.\<close>

definition fetchContributionStats_try :: "'a stats_platform_scheme \<Rightarrow> string \<Rightarrow> js_error + ContributionStats" where
  "fetchContributionStats_try p username =
     (case fetch_contributions p (''https://github-contributions-api.jogruber.de/v4/'' @ username) [] of
        Inl e \<Rightarrow> Inl e
      | Inr response \<Rightarrow>
          if \<not> ok response then Inr zero_stats
          else (case json response of
                  Inl e \<Rightarrow> Inl e
                | Inr data \<Rightarrow>
                    (case total data of
                       None \<Rightarrow> Inl (TypeError ''Cannot convert undefined or null to object'')
                     | Some tot \<Rightarrow>
                         (case contributions data of
                            None \<Rightarrow> Inl (TypeError ''Cannot read properties of undefined'')
                          | Some contribs \<Rightarrow>
                              Inr (compute_stats (Date_getTime p) (today p) tot contribs)))))"

text \<open>The whole function: the \<^verbatim>\<open>catch\<close> of lines 96 to 99 returns the zero record.\<close>

definition fetchContributionStats :: "'a stats_platform_scheme \<Rightarrow> string \<Rightarrow> js_error + ContributionStats" where
  "fetchContributionStats p username =
     (case fetchContributionStats_try p username of
        Inl e \<Rightarrow> Inr zero_stats
      | Inr stats \<Rightarrow> Inr stats)"

text \<open>
  The upstream answered with a success status and a body holding the per-year
  map \<open>tot\<close> and the daily series \<open>contribs\<close>.
\<close>

definition serves :: "'a stats_platform_scheme \<Rightarrow> string \<Rightarrow> (string \<times> int) list \<Rightarrow> ContributionDay list \<Rightarrow> bool" where
  "serves p username tot contribs =
     (case fetch_contributions p (''https://github-contributions-api.jogruber.de/v4/'' @ username) [] of
        Inl e \<Rightarrow> False
      | Inr response \<Rightarrow>
          ok response \<and> json response = Inr \<lparr>total = Some tot, contributions = Some contribs\<rparr>)"

text \<open>
  The upstream failed: the request was rejected, the status is not a success, the
  body does not parse, or the body lacks one of the two properties.
\<close>

definition upstream_failed :: "'a stats_platform_scheme \<Rightarrow> string \<Rightarrow> bool" where
  "upstream_failed p username =
     (case fetch_contributions p (''https://github-contributions-api.jogruber.de/v4/'' @ username) [] of
        Inl e \<Rightarrow> True
      | Inr response \<Rightarrow>
          \<not> ok response \<or>
          (case json response of
             Inl e \<Rightarrow> True
           | Inr data \<Rightarrow> total data = None \<or> contributions data = None))"

section \<open>GitHub service (fetchGitHub and the aggregation)\<close>

text \<open>
  The fields of \<^verbatim>\<open>GitHubUser\<close> and \<^verbatim>\<open>GitHubRepo\<close> that the services read.
  \<^verbatim>\<open>readmeContent?: string | null\<close> has three states: the property is absent
  (\<open>None\<close>), it is \<^verbatim>\<open>null\<close> (\<open>Some None\<close>), or it is a string.
\<close>

record GitHubUser =
  login :: string
  name :: "string option"
  bio :: "string option"
  public_repos :: int
  followers :: int
  created_at :: string

record GitHubRepo =
  name :: string
  description :: "string option"
  language :: "string option"
  stargazers_count :: int
  updated_at :: string
  homepage :: "string option"
  topics :: "string list"
  readmeContent :: "string option option"

text \<open>The body of the README endpoint: \<^verbatim>\<open>{ content: string; encoding: string }\<close>.\<close>

record readme_file =
  content :: string
  encoding :: string

definition BASE_URL :: string where
  "BASE_URL = ''https://api.github.com''"

text \<open>
  The headers of lines 7 to 13. \<^verbatim>\<open>if (token)\<close> holds for a token that is a
  non-empty string.
\<close>

definition request_headers :: "string option \<Rightarrow> headers" where
  "request_headers token =
     (let headers = [(''Accept'', ''application/vnd.github.v3+json'')]
      in case token of
           None \<Rightarrow> headers
         | Some t \<Rightarrow> if t \<noteq> [] then headers @ [(''Authorization'', ''token '' @ t)] else headers)"

text \<open>\<^verbatim>\<open>fetchGitHub\<close>, lines 6 to 28.\<close>

definition fetchGitHub :: "'a fetch \<Rightarrow> string \<Rightarrow> string option \<Rightarrow> js_error + 'a" where
  "fetchGitHub fetch url token =
     (case fetch url (request_headers token) of
        Inl e \<Rightarrow> Inl e
      | Inr response \<Rightarrow>
          if \<not> ok response then
            (if status response = 403 \<or> status response = 429 then
               Inl (new_Error ''GitHub API rate limit exceeded. Please try again later or provide a token.'')
             else if status response = 404 then
               Inl (new_Error ''User or resource not found.'')
             else Inl (new_Error (''GitHub API Error: '' @ statusText response)))
          else json response)"

text \<open>
  The platform of the GitHub service: \<^verbatim>\<open>fetch\<close> at the three body types of
  the GitHub endpoints, and \<^verbatim>\<open>atob\<close>, which throws on a string that is not
  base64.
\<close>

record github_platform = stats_platform +
  fetch_profile :: "GitHubUser fetch"
  fetch_repos :: "GitHubRepo list fetch"
  fetch_readme :: "readme_file fetch"
  atob :: "string \<Rightarrow> js_error + string"

definition getUserProfile :: "'a github_platform_scheme \<Rightarrow> string \<Rightarrow> string option \<Rightarrow> js_error + GitHubUser" where
  "getUserProfile p username token =
     fetchGitHub (fetch_profile p) (BASE_URL @ ''/users/'' @ username) token"

definition getUserRepos :: "'a github_platform_scheme \<Rightarrow> string \<Rightarrow> string option \<Rightarrow> js_error + GitHubRepo list" where
  "getUserRepos p username token =
     fetchGitHub (fetch_repos p)
       (BASE_URL @ ''/users/'' @ username @ ''/repos?sort=updated&per_page=6&type=owner'') token"

text \<open>\<^verbatim>\<open>data.content.replace(/\n/g, '')\<close>\<close>

definition remove_newlines :: "string \<Rightarrow> string" where
  "remove_newlines s = filter (\<lambda>c. c \<noteq> CHR 0x0A) s"

text \<open>
  \<^verbatim>\<open>getRepoReadme\<close>, lines 111 to 126: the \<^verbatim>\<open>catch\<close> turns every throw of
  the \<^verbatim>\<open>try\<close> block, of \<^verbatim>\<open>fetchGitHub\<close> and of \<^verbatim>\<open>atob\<close>, into
  \<^verbatim>\<open>null\<close>.
\<close>

definition readme_url :: "string \<Rightarrow> string \<Rightarrow> string" where
  "readme_url owner repo = BASE_URL @ ''/repos/'' @ owner @ ''/'' @ repo @ ''/readme''"

definition getRepoReadme_try ::
  "'a github_platform_scheme \<Rightarrow> string \<Rightarrow> string \<Rightarrow> string option \<Rightarrow> js_error + string option" where
  "getRepoReadme_try p owner repo token =
     (case fetchGitHub (fetch_readme p) (readme_url owner repo) token of
        Inl e \<Rightarrow> Inl e
      | Inr data \<Rightarrow>
          if encoding data = ''base64'' \<and> content data \<noteq> [] then
            (case atob p (remove_newlines (content data)) of
               Inl e \<Rightarrow> Inl e
             | Inr decoded \<Rightarrow> Inr (Some (take 2000 decoded)))
          else Inr None)"

definition getRepoReadme ::
  "'a github_platform_scheme \<Rightarrow> string \<Rightarrow> string \<Rightarrow> string option \<Rightarrow> js_error + string option" where
  "getRepoReadme p owner repo token =
     (case getRepoReadme_try p owner repo token of
        Inl error \<Rightarrow> Inr None
      | Inr readme \<Rightarrow> Inr readme)"

text \<open>\<^verbatim>\<open>Promise.all\<close>: the list of the results, or the first rejection.\<close>

fun Promise_all :: "(js_error + 'a) list \<Rightarrow> js_error + 'a list" where
  "Promise_all [] = Inr []"
| "Promise_all (Inl e # ps) = Inl e"
| "Promise_all (Inr x # ps) = (case Promise_all ps of Inl e \<Rightarrow> Inl e | Inr xs \<Rightarrow> Inr (x # xs))"

record profile_data =
  user :: GitHubUser
  repos :: "GitHubRepo list"
  stats :: ContributionStats

text \<open>The callback of \<^verbatim>\<open>repos.map\<close>, lines 139 to 145.\<close>

definition attach_readme ::
  "'a github_platform_scheme \<Rightarrow> GitHubUser \<Rightarrow> string option \<Rightarrow> nat \<times> GitHubRepo \<Rightarrow> js_error + GitHubRepo" where
  "attach_readme p usr token ir =
     (case ir of (index, repo) \<Rightarrow>
        if index < 3 then
          (case getRepoReadme p (login usr) (name repo) token of
             Inl e \<Rightarrow> Inl e
           | Inr readme \<Rightarrow> Inr (repo\<lparr>readmeContent := Some readme\<rparr>))
        else Inr repo)"

text \<open>
  \<^verbatim>\<open>fetchFullProfileData\<close>, lines 128 to 149. The first \<^verbatim>\<open>Promise.all\<close>
  joins the repository list and the statistics.
\<close>

definition fetchFullProfileData ::
  "'a github_platform_scheme \<Rightarrow> string \<Rightarrow> string option \<Rightarrow> js_error + profile_data" where
  "fetchFullProfileData p username token =
     (case getUserProfile p username token of
        Inl e \<Rightarrow> Inl e
      | Inr usr \<Rightarrow>
          (case getUserRepos p username token of
             Inl e \<Rightarrow> Inl e
           | Inr rs \<Rightarrow>
               (case fetchContributionStats p username of
                  Inl e \<Rightarrow> Inl e
                | Inr st \<Rightarrow>
                    (case Promise_all (map (attach_readme p usr token) (enumerate 0 rs)) of
                       Inl e \<Rightarrow> Inl e
                     | Inr reposWithReadmes \<Rightarrow>
                         Inr \<lparr>user = usr, repos = reposWithReadmes, stats = st\<rparr>))))"

section \<open>Assessment service (analyzeProfile)\<close>

datatype json =
    JNull
  | JBool bool
  | JNumber int
  | JString string
  | JArray "json list"
  | JObject "(string \<times> json) list"

fun has_field :: "json \<Rightarrow> string \<Rightarrow> bool" where
  "has_field (JObject props) k = (k \<in> set (map fst props))"
| "has_field _ k = False"

definition nullable :: "string option \<Rightarrow> json" where
  "nullable s = (case s of None \<Rightarrow> JNull | Some t \<Rightarrow> JString t)"

text \<open>
  \<^verbatim>\<open>r.readmeContent ? r.readmeContent.slice(0, 1500) : "No README content available."\<close>
\<close>

definition readme_preview :: "GitHubRepo \<Rightarrow> string" where
  "readme_preview r =
     (case readmeContent r of
        Some (Some s) \<Rightarrow> if s \<noteq> [] then take 1500 s else ''No README content available.''
      | _ \<Rightarrow> ''No README content available.'')"

text \<open>The object \<^verbatim>\<open>promptData\<close>, lines 75 to 92.\<close>

definition promptData :: "GitHubUser \<Rightarrow> GitHubRepo list \<Rightarrow> json" where
  "promptData usr rs =
     JObject
       [(''username'', JString (login usr)),
        (''name'', nullable (GitHubUser.name usr)),
        (''bio'', nullable (bio usr)),
        (''public_repos'', JNumber (public_repos usr)),
        (''followers'', JNumber (followers usr)),
        (''created_at'', JString (created_at usr)),
        (''repositories'',
           JArray (map (\<lambda>r. JObject
             [(''name'', JString (name r)),
              (''description'', nullable (description r)),
              (''language'', nullable (language r)),
              (''stargazers'', JNumber (stargazers_count r)),
              (''updated_at'', JString (updated_at r)),
              (''homepage'', nullable (homepage r)),
              (''topics'', JArray (map JString (topics r))),
              (''readme_preview'', JString (readme_preview r))]) rs))]"

text \<open>
  The platform of the assessment service: the configured key
  (\<^verbatim>\<open>process.env.API_KEY\<close>), the model call, which takes the prompt data and
  gives \<^verbatim>\<open>response.text\<close> (\<open>None\<close> when it is \<^verbatim>\<open>undefined\<close>) or rejects,
  and \<^verbatim>\<open>JSON.parse\<close>, which throws on a text that is not JSON.
\<close>

record app_platform = github_platform +
  API_KEY :: "string option"
  generateContent :: "json \<Rightarrow> js_error + string option"
  JSON_parse :: "string \<Rightarrow> js_error + json"

text \<open>
  \<^verbatim>\<open>analyzeProfile\<close>, lines 34 to 111. \<^verbatim>\<open>JSON.parse(text) as ProfileAnalysis\<close>
  is a cast: the value returned is the parsed value.
\<close>

definition analyzeProfile :: "'a app_platform_scheme \<Rightarrow> GitHubUser \<Rightarrow> GitHubRepo list \<Rightarrow> js_error + json" where
  "analyzeProfile p usr rs =
     (if API_KEY p = None \<or> API_KEY p = Some [] then Inl (new_Error ''Gemini API Key is missing'')
      else (case generateContent p (promptData usr rs) of
              Inl e \<Rightarrow> Inl e
            | Inr text \<Rightarrow>
                (case text of
                   None \<Rightarrow> Inl (new_Error ''No response from AI service'')
                 | Some t \<Rightarrow>
                     if t = [] then Inl (new_Error ''No response from AI service'')
                     else JSON_parse p t)))"

section \<open>The analysis handler (App.tsx, handleAnalyze)\<close>

datatype AnalysisState = IDLE | FETCHING_GITHUB | ANALYZING_GEMINI | COMPLETE | ERROR

record analysis_data = profile_data +
  analysis :: json

record app_state =
  state :: AnalysisState
  error :: "string option"
  data :: "analysis_data option"

text \<open>The calls of the two services, in the order the handler makes them.\<close>

datatype service_call =
    Called_fetchFullProfileData string "string option"
  | Called_analyzeProfile GitHubUser "GitHubRepo list"

text \<open>
  The \<^verbatim>\<open>try\<close> block of \<^verbatim>\<open>handleAnalyze\<close>, lines 53 to 66, with the calls it
  makes. \<^verbatim>\<open>token || undefined\<close> passes no token for the empty string.
\<close>

definition handleAnalyze_try ::
  "'a app_platform_scheme \<Rightarrow> string \<Rightarrow> string \<Rightarrow> (js_error + analysis_data) \<times> service_call list" where
  "handleAnalyze_try p targetUser token =
     (let tok = (if token = [] then None else Some token);
          calls = [Called_fetchFullProfileData targetUser tok]
      in case fetchFullProfileData p targetUser tok of
           Inl e \<Rightarrow> (Inl e, calls)
         | Inr d \<Rightarrow>
             if length (repos d) = 0 then
               (Inl (new_Error ''This user has no public repositories to analyze.''), calls)
             else
               (let calls = calls @ [Called_analyzeProfile (user d) (repos d)]
                in case analyzeProfile p (user d) (repos d) of
                     Inl e \<Rightarrow> (Inl e, calls)
                   | Inr a \<Rightarrow>
                       (Inr \<lparr>user = user d, repos = repos d, stats = stats d, analysis = a\<rparr>, calls)))"

text \<open>
  \<^verbatim>\<open>handleAnalyze\<close> from line 50 on, for the handle \<open>targetUser\<close> that line 44
  extracted: the state after the handler, and the calls it made.
\<close>

definition handleAnalyze ::
  "'a app_platform_scheme \<Rightarrow> string \<Rightarrow> string \<Rightarrow> app_state \<Rightarrow> app_state \<times> service_call list" where
  "handleAnalyze p targetUser token st =
     (let st = st\<lparr>state := FETCHING_GITHUB, error := None\<rparr>
      in case handleAnalyze_try p targetUser token of
           (Inr d, calls) \<Rightarrow> (st\<lparr>data := Some d, state := COMPLETE\<rparr>, calls)
         | (Inl err, calls) \<Rightarrow>
             (st\<lparr>error := Some (if error_message err \<noteq> [] then error_message err
                                 else ''An unexpected error occurred.''),
                 state := ERROR\<rparr>, calls))"

section \<open>Example platforms and series\<close>

text \<open>
  The time in milliseconds of an ISO day \<^verbatim>\<open>YYYY-MM-DD\<close>, which is what
  \<^verbatim>\<open>new Date(s).getTime()\<close> gives on such a string: the date parser of the
  example platforms below.
\<close>

definition digit_value :: "char \<Rightarrow> int" where
  "digit_value c = int (of_char c) - 48"

definition decimal :: "string \<Rightarrow> int" where
  "decimal s = foldl (\<lambda>n c. 10 * n + digit_value c) 0 s"

definition days_from_civil :: "int \<Rightarrow> int \<Rightarrow> int \<Rightarrow> int" where
  "days_from_civil y m d =
     (let y' = (if m \<le> 2 then y - 1 else y);
          era = y' div 400;
          yoe = y' - era * 400;
          doy = (153 * (if m > 2 then m - 3 else m + 9) + 2) div 5 + d - 1;
          doe = yoe * 365 + yoe div 4 - yoe div 100 + doy
      in era * 146097 + doe - 719468)"

definition iso_getTime :: "string \<Rightarrow> int" where
  "iso_getTime s =
     days_from_civil (decimal (take 4 s)) (decimal (take 2 (drop 5 s))) (decimal (take 2 (drop 8 s)))
       * 86400000"

text \<open>
  A platform on which the contribution API answers the request for
  \<^verbatim>\<open>octocat\<close> with the given outcome, and every other request is rejected.
\<close>

definition octocat_platform ::
  "js_error + contribution_data response \<Rightarrow> string \<Rightarrow> stats_platform" where
  "octocat_platform outcome td =
     \<lparr>fetch_contributions =
        (\<lambda>url hs. if url = ''https://github-contributions-api.jogruber.de/v4/octocat''
                   then outcome else Inl (TypeError ''Failed to fetch'')),
      Date_getTime = iso_getTime,
      today = td\<rparr>"

definition ok_body :: "(string \<times> int) list \<Rightarrow> ContributionDay list \<Rightarrow> js_error + contribution_data response" where
  "ok_body tot contribs =
     Inr \<lparr>status = 200, statusText = ''OK'',
          json = Inr \<lparr>total = Some tot, contributions = Some contribs\<rparr>\<rparr>"

text \<open>
  Responses: a success with the given body, and a failure status, whose body the
  services never read.
\<close>

definition ok_response :: "'a \<Rightarrow> 'a response" where
  "ok_response body = \<lparr>status = 200, statusText = ''OK'', json = Inr body\<rparr>"

definition status_response :: "int \<Rightarrow> string \<Rightarrow> 'a response" where
  "status_response code reason =
     \<lparr>status = code, statusText = reason, json = Inl (TypeError ''body is not of the expected type'')\<rparr>"

definition answer :: "'a response \<Rightarrow> 'a fetch" where
  "answer r = (\<lambda>url hs. Inr r)"

definition failure_name :: "js_error + 'a \<Rightarrow> string option" where
  "failure_name result = (case result of Inl e \<Rightarrow> Some (error_name e) | Inr x \<Rightarrow> None)"

definition octocat :: GitHubUser where
  "octocat =
     \<lparr>login = ''octocat'', name = Some ''The Octocat'', bio = None, public_repos = 4,
      followers = 10, created_at = ''2011-01-25T18:44:36Z''\<rparr>"

definition repo_named :: "string \<Rightarrow> GitHubRepo" where
  "repo_named n =
     \<lparr>name = n, description = None, language = None, stargazers_count = 0,
      updated_at = ''2024-03-01T00:00:00Z'', homepage = None, topics = [], readmeContent = None\<rparr>"

definition four_repos :: "GitHubRepo list" where
  "four_repos = [repo_named ''hello'', repo_named ''bare'', repo_named ''legacy'', repo_named ''fourth'']"

text \<open>
  \<^verbatim>\<open>atob\<close> and \<^verbatim>\<open>JSON.parse\<close> of the example platform, given on the texts
  that the examples use: \<^verbatim>\<open>SGVsbG8=\<close> is the base64 of \<^verbatim>\<open>Hello\<close>.
\<close>

definition example_atob :: "string \<Rightarrow> js_error + string" where
  "example_atob s =
     (if s = ''SGVsbG8='' then Inr ''Hello''
      else Inl (Thrown ''InvalidCharacterError'' ''The string to be decoded is not correctly encoded.''))"

definition partial_text :: string where
  \<open>partial_text = ''{"profileScore":72}''\<close>

definition example_JSON_parse :: "string \<Rightarrow> js_error + json" where
  "example_JSON_parse s =
     (if s = partial_text then Inr (JObject [(''profileScore'', JNumber 72)])
      else Inl (Thrown ''SyntaxError'' ''Unexpected token''))"

text \<open>
  A platform for the user \<^verbatim>\<open>octocat\<close> with the given repository list: the
  repository \<^verbatim>\<open>hello\<close> has a base64 README, \<^verbatim>\<open>legacy\<close> has one in another
  encoding, every other README request is answered 404, the contribution API is down, and
  the model answers with the given text.
\<close>

definition example_platform :: "GitHubRepo list \<Rightarrow> string option \<Rightarrow> app_platform" where
  "example_platform rs reply =
     \<lparr>fetch_contributions = (\<lambda>url hs. Inl (TypeError ''Failed to fetch'')),
      Date_getTime = iso_getTime,
      today = ''2024-03-10'',
      fetch_profile =
        (\<lambda>url hs. if url = ''https://api.github.com/users/octocat'' then Inr (ok_response octocat)
                   else Inr (status_response 404 ''Not Found'')),
      fetch_repos =
        (\<lambda>url hs. if url = ''https://api.github.com/users/octocat/repos?sort=updated&per_page=6&type=owner''
                   then Inr (ok_response rs)
                   else Inr (status_response 404 ''Not Found'')),
      fetch_readme =
        (\<lambda>url hs. if url = ''https://api.github.com/repos/octocat/hello/readme''
                   then Inr (ok_response \<lparr>content = ''SGVsbG8='' @ [CHR 0x0A], encoding = ''base64''\<rparr>)
                   else if url = ''https://api.github.com/repos/octocat/legacy/readme''
                   then Inr (ok_response \<lparr>content = ''Hello'', encoding = ''utf-8''\<rparr>)
                   else Inr (status_response 404 ''Not Found'')),
      atob = example_atob,
      API_KEY = Some ''key'',
      generateContent = (\<lambda>prompt. Inr reply),
      JSON_parse = example_JSON_parse\<rparr>"

text \<open>Daily series around the day \<^verbatim>\<open>2024-03-10\<close>, not all in ascending order.\<close>

definition quiet_days :: "ContributionDay list" where
  "quiet_days = [\<lparr>date = ''2024-03-09'', count = 0\<rparr>, \<lparr>date = ''2024-03-08'', count = 0\<rparr>]"

definition busy_days :: "ContributionDay list" where
  "busy_days =
     [\<lparr>date = ''2024-03-10'', count = 1\<rparr>, \<lparr>date = ''2024-03-08'', count = 2\<rparr>,
      \<lparr>date = ''2024-03-09'', count = 5\<rparr>]"

definition mixed_days :: "ContributionDay list" where
  "mixed_days =
     [\<lparr>date = ''2024-03-07'', count = 3\<rparr>, \<lparr>date = ''2024-03-10'', count = 0\<rparr>,
      \<lparr>date = ''2024-03-08'', count = 0\<rparr>, \<lparr>date = ''2024-03-09'', count = 4\<rparr>]"

definition two_days :: "ContributionDay list" where
  "two_days = [\<lparr>date = ''2024-03-09'', count = 1\<rparr>, \<lparr>date = ''2024-03-10'', count = 0\<rparr>]"

definition three_days :: "ContributionDay list" where
  "three_days =
     [\<lparr>date = ''2024-03-08'', count = 1\<rparr>, \<lparr>date = ''2024-03-09'', count = 0\<rparr>,
      \<lparr>date = ''2024-03-10'', count = 0\<rparr>]"

section \<open>Properties of the two scans\<close>

text \<open>The backward loop reads the array from its end: the same scan on the reversed list.\<close>

fun scan_rev :: "string \<Rightarrow> ContributionDay list \<Rightarrow> int \<Rightarrow> int" where
  "scan_rev td [] a = a"
| "scan_rev td (d # ds) a =
     (if count d > 0 then scan_rev td ds (a + 1)
      else if date d = td then scan_rev td ds a
      else a)"

lemma for_backward_scan_rev:
  "n \<le> length cs \<Longrightarrow> for_backward td cs n a = scan_rev td (rev (take n cs)) a"
proof (induction n arbitrary: a)
  case 0
  then show ?case by simp
next
  case (Suc n)
  then have "n < length cs" by simp
  then have "rev (take (Suc n) cs) = cs ! n # rev (take n cs)"
    by (simp add: take_Suc_conv_app_nth)
  with Suc show ?case by simp
qed

lemma forEach_day_append:
  "forEach_day (xs @ ys) p = forEach_day ys (forEach_day xs p)"
proof (induction xs arbitrary: p)
  case Nil
  then show ?case by (cases p) simp
next
  case (Cons x xs)
  then show ?case by (cases p) simp
qed

lemma forEach_day_positive:
  "\<forall>c \<in> set cs. count c > 0 \<Longrightarrow> forEach_day cs (l, t) = (l, t + int (length cs))"
  by (induction cs arbitrary: t) simp_all

lemma forEach_day_nonpositive:
  "\<forall>c \<in> set cs. count c \<le> 0 \<Longrightarrow> forEach_day cs (0, 0) = (0, 0)"
  by (induction cs) simp_all

lemma forEach_day_bounds:
  "forEach_day cs (l, t) = (l', t') \<Longrightarrow> 0 \<le> l \<Longrightarrow> 0 \<le> t \<Longrightarrow> 0 \<le> l' \<and> 0 \<le> t'"
proof (induction cs arbitrary: l t)
  case Nil
  then show ?case by simp
next
  case (Cons c cs)
  show ?case
  proof (cases "count c > 0")
    case True
    with Cons.prems have "forEach_day cs (l, t + 1) = (l', t')" by simp
    from Cons.IH [OF this] Cons.prems show ?thesis by simp
  next
    case False
    with Cons.prems have "forEach_day cs (max l t, 0) = (l', t')" by simp
    from Cons.IH [OF this] Cons.prems show ?thesis by simp
  qed
qed

lemma scan_rev_positive:
  "\<forall>c \<in> set cs. count c > 0 \<Longrightarrow> scan_rev td cs a = a + int (length cs)"
  by (induction cs arbitrary: a) simp_all

lemma scan_rev_nonpositive:
  "\<forall>c \<in> set cs. count c \<le> 0 \<Longrightarrow> scan_rev td cs a = a"
  by (induction cs arbitrary: a) simp_all

lemma scan_rev_run:
  "\<forall>c \<in> set cs. date c \<noteq> td \<Longrightarrow>
   scan_rev td cs a = a + int (length (takeWhile (\<lambda>c. count c > 0) cs))"
  by (induction cs arbitrary: a) simp_all

lemma scan_rev_mono: "a \<le> scan_rev td cs a"
proof (induction cs arbitrary: a)
  case Nil
  then show ?case by simp
next
  case (Cons c cs)
  from Cons [of "a + 1"] Cons [of a] show ?case by simp
qed

lemma fetchContributionStats_serves:
  "serves p username tot contribs \<Longrightarrow>
   fetchContributionStats p username = Inr (compute_stats (Date_getTime p) (today p) tot contribs)"
  by (auto simp: serves_def fetchContributionStats_def fetchContributionStats_try_def
      split: sum.splits)

lemma longestStreak_compute_stats:
  "longestStreak (compute_stats g td tot cs) =
     (case forEach_day (sort_by_date g cs) (0, 0) of (l, t) \<Rightarrow> max l t)"
  by (simp add: compute_stats_def Let_def split: prod.splits)

lemma currentStreak_compute_stats:
  "currentStreak (compute_stats g td tot cs) = scan_rev td (rev (sort_by_date g cs)) 0"
  by (simp add: compute_stats_def Let_def for_backward_scan_rev split: prod.splits)

lemma totalContributions_compute_stats:
  "totalContributions (compute_stats g td tot cs) = sum_list (map snd tot)"
proof -
  have "foldl (\<lambda>acc curr. acc + curr) a vs = a + sum_list vs" for a :: int and vs
    by (induction vs arbitrary: a) simp_all
  then show ?thesis
    by (simp add: compute_stats_def Let_def reduce_add_def Object_values_def split: prod.splits)
qed

lemma set_sort_by_date [simp]: "set (sort_by_date g cs) = set cs"
  by (simp add: sort_by_date_def)

lemma length_sort_by_date [simp]: "length (sort_by_date g cs) = length cs"
  by (simp add: sort_by_date_def)

lemma compute_stats_all_zero:
  assumes "\<forall>c \<in> set cs. count c = 0"
  shows "longestStreak (compute_stats g td tot cs) = 0 \<and> currentStreak (compute_stats g td tot cs) = 0"
proof -
  from assms have np: "\<forall>c \<in> set (sort_by_date g cs). count c \<le> 0" by simp
  then have np': "\<forall>c \<in> set (rev (sort_by_date g cs)). count c \<le> 0" by simp
  show ?thesis
    by (simp add: longestStreak_compute_stats currentStreak_compute_stats
        forEach_day_nonpositive [OF np] scan_rev_nonpositive [OF np'])
qed

lemma compute_stats_all_positive:
  assumes "\<forall>c \<in> set cs. count c > 0"
  shows "longestStreak (compute_stats g td tot cs) = int (length cs) \<and>
         currentStreak (compute_stats g td tot cs) = int (length cs)"
proof -
  from assms have p: "\<forall>c \<in> set (sort_by_date g cs). count c > 0" by simp
  then have p': "\<forall>c \<in> set (rev (sort_by_date g cs)). count c > 0" by simp
  show ?thesis
    by (simp add: longestStreak_compute_stats currentStreak_compute_stats
        forEach_day_positive [OF p] scan_rev_positive [OF p'])
qed

lemma forEach_day_max_mono:
  "forEach_day ws (l0, t0) = (l, t) \<Longrightarrow> max l0 t0 \<le> max l t"
proof (induction ws arbitrary: l0 t0)
  case Nil
  then show ?case by simp
next
  case (Cons w ws)
  show ?case
  proof (cases "count w > 0")
    case True
    with Cons.prems have "forEach_day ws (l0, t0 + 1) = (l, t)" by simp
    from Cons.IH [OF this] show ?thesis by simp
  next
    case False
    with Cons.prems have "forEach_day ws (max l0 t0, 0) = (l, t)" by simp
    from Cons.IH [OF this] show ?thesis by simp
  qed
qed

lemma forEach_day_run:
  assumes "\<forall>c \<in> set zs. count c > 0" and "forEach_day (ys @ zs @ ws) (0, 0) = (l, t)"
  shows "int (length zs) \<le> max l t"
proof -
  obtain l1 t1 where ys: "forEach_day ys (0, 0) = (l1, t1)" by (cases "forEach_day ys (0, 0)")
  from forEach_day_bounds [OF ys] have "0 \<le> t1" by simp
  from assms(2) have "forEach_day ws (l1, t1 + int (length zs)) = (l, t)"
    by (simp add: forEach_day_append ys forEach_day_positive [OF assms(1)])
  from forEach_day_max_mono [OF this] \<open>0 \<le> t1\<close> show ?thesis by simp
qed

lemma scan_rev_le_longest:
  assumes "\<forall>x \<in> set xs. date x \<noteq> td" and "forEach_day (xs @ [d]) (0, 0) = (l, t)"
  shows "scan_rev td (rev (xs @ [d])) 0 \<le> max l t"
proof -
  define zs where "zs = rev (takeWhile (\<lambda>c. count c > 0) (rev xs))"
  define ys where "ys = rev (dropWhile (\<lambda>c. count c > 0) (rev xs))"
  have xs: "xs = ys @ zs"
    unfolding ys_def zs_def by (metis rev_append rev_rev_ident takeWhile_dropWhile_id)
  have pos: "\<forall>c \<in> set zs. count c > 0"
    unfolding zs_def by (auto dest: set_takeWhileD)
  from assms(1) have "\<forall>x \<in> set (rev xs). date x \<noteq> td" by simp
  from scan_rev_run [OF this]
  have run: "scan_rev td (rev xs) a = a + int (length zs)" for a
    by (simp add: zs_def)
  from forEach_day_bounds [OF assms(2)] have nonneg: "0 \<le> max l t"
    by (simp add: le_max_iff_disj)
  show ?thesis
  proof (cases "count d > 0")
    case True
    with pos have "\<forall>c \<in> set (zs @ [d]). count c > 0" by simp
    moreover from assms(2) have "forEach_day (ys @ (zs @ [d]) @ []) (0, 0) = (l, t)"
      by (simp add: xs)
    ultimately have "int (length (zs @ [d])) \<le> max l t" by (rule forEach_day_run)
    with True show ?thesis by (simp add: run)
  next
    case False
    from assms(2) have "forEach_day (ys @ zs @ [d]) (0, 0) = (l, t)" by (simp add: xs)
    with pos have "int (length zs) \<le> max l t" by (rule forEach_day_run)
    with False nonneg show ?thesis by (simp add: run)
  qed
qed

lemma sorted_today_last:
  assumes dist: "distinct (map (\<lambda>c. g (date c)) cs)"
    and le: "\<forall>c \<in> set cs. g (date c) \<le> g td"
    and s: "sort_by_date g cs = xs @ [d]"
  shows "\<forall>x \<in> set xs. date x \<noteq> td"
proof
  fix x assume x: "x \<in> set xs"
  let ?f = "\<lambda>c. g (date c)"
  have "sorted (map ?f (xs @ [d]))"
    using sorted_sort_key [of ?f cs] by (simp add: sort_by_date_def [symmetric] s)
  with x have "?f x \<le> ?f d" by (auto simp: sorted_append)
  have "mset (map ?f (xs @ [d])) = mset (map ?f cs)"
    using arg_cong [OF mset_sort [of ?f cs], of "image_mset ?f"]
    by (simp add: sort_by_date_def [symmetric] s)
  then have "distinct (map ?f (xs @ [d]))"
    using dist by (metis mset_eq_imp_distinct_iff)
  with x have "?f x \<noteq> ?f d" by (auto simp: image_iff)
  have "d \<in> set cs" using set_sort_by_date [of g cs] by (auto simp: s)
  with le have "?f d \<le> g td" by simp
  with \<open>?f x \<le> ?f d\<close> \<open>?f x \<noteq> ?f d\<close> show "date x \<noteq> td" by auto
qed

lemma compute_stats_current_le_longest:
  assumes "distinct (map (\<lambda>c. g (date c)) cs)" and "\<forall>c \<in> set cs. g (date c) \<le> g td"
  shows "currentStreak (compute_stats g td tot cs) \<le> longestStreak (compute_stats g td tot cs)"
proof (cases "sort_by_date g cs" rule: rev_cases)
  case Nil
  then show ?thesis
    by (simp add: longestStreak_compute_stats currentStreak_compute_stats)
next
  case (snoc xs d)
  obtain l t where lt: "forEach_day (xs @ [d]) (0, 0) = (l, t)"
    by (cases "forEach_day (xs @ [d]) (0, 0)")
  from sorted_today_last [OF assms snoc] lt
  have "scan_rev td (rev (xs @ [d])) 0 \<le> max l t" by (rule scan_rev_le_longest)
  then show ?thesis
    by (simp add: longestStreak_compute_stats currentStreak_compute_stats snoc lt)
qed

lemma compute_stats_streaks_nonneg:
  "0 \<le> longestStreak (compute_stats g td tot cs) \<and> 0 \<le> currentStreak (compute_stats g td tot cs)"
proof -
  obtain l t where lt: "forEach_day (sort_by_date g cs) (0, 0) = (l, t)"
    by (cases "forEach_day (sort_by_date g cs) (0, 0)")
  from forEach_day_bounds [OF lt] scan_rev_mono [of 0 td "rev (sort_by_date g cs)"]
  show ?thesis
    by (simp add: longestStreak_compute_stats currentStreak_compute_stats lt le_max_iff_disj)
qed

lemma sort_by_date_permutation:
  assumes "mset cs = mset cs'" and "distinct (map (\<lambda>c. g (date c)) cs)"
  shows "sort_by_date g cs = sort_by_date g cs'"
proof -
  let ?f = "\<lambda>c. g (date c)"
  from assms(1) have sets: "set cs = set cs'" by (rule mset_eq_setD)
  from assms(1) have "mset (map ?f cs) = mset (map ?f cs')" by simp
  with assms(2) have d': "distinct (map ?f cs')" by (metis mset_eq_imp_distinct_iff)
  have dist: "distinct (map ?f (sort_key ?f zs))" if "distinct (map ?f zs)" for zs :: "ContributionDay list"
    using that by (simp add: distinct_map)
  have "map ?f (sort_key ?f cs) = map ?f (sort_key ?f cs')"
    by (rule sorted_distinct_set_unique)
       (simp_all add: dist assms(2) d' sets)
  moreover from assms(2) have "inj_on ?f (set (sort_key ?f cs) \<union> set (sort_key ?f cs'))"
    by (simp add: distinct_map sets [symmetric])
  ultimately show ?thesis
    by (simp add: sort_by_date_def inj_on_map_eq_map)
qed

lemmas iso_eval = iso_getTime_def decimal_def digit_value_def days_from_civil_def

lemma serves_octocat:
  "serves (octocat_platform (ok_body tot cs) td) ''octocat'' tot cs"
  by (simp add: serves_def octocat_platform_def ok_body_def ok_def)

lemma sum_values_nonneg:
  "\<forall>x \<in> set tot. 0 \<le> snd x \<Longrightarrow> 0 \<le> sum_list (map snd tot)"
  for tot :: "(string \<times> int) list"
  by (induction tot) auto

lemma distinct_times:
  assumes "distinct (map date cs)" and "inj_on g (date ` set cs)"
  shows "distinct (map (\<lambda>c. g (date c)) cs)"
proof -
  from assms have "distinct (map g (map date cs))"
    by (subst distinct_map) simp
  then show ?thesis by (simp add: comp_def)
qed

lemma mixed_days_facts:
  "distinct (map date mixed_days)"
  "inj_on iso_getTime (date ` set mixed_days)"
  "\<forall>c \<in> set mixed_days. iso_getTime (date c) \<le> iso_getTime ''2024-03-10''"
  by (simp_all add: mixed_days_def iso_eval)

lemma compute_stats_today_skipped:
  assumes "g d1 < g td"
  shows "currentStreak (compute_stats g td tot [\<lparr>date = d1, count = 1\<rparr>, \<lparr>date = td, count = 0\<rparr>]) = 1"
  using assms by (simp add: compute_stats_def sort_by_date_def split: prod.splits)

lemma compute_stats_yesterday_breaks:
  assumes "g d2 < g d1" and "g d1 < g td"
  shows "currentStreak (compute_stats g td tot
           [\<lparr>date = d2, count = 1\<rparr>, \<lparr>date = d1, count = 0\<rparr>, \<lparr>date = td, count = 0\<rparr>]) = 0"
proof -
  from assms have "d1 \<noteq> td" by auto
  with assms show ?thesis
    by (simp add: compute_stats_def sort_by_date_def split: prod.splits)
qed

section \<open>Properties of the aggregation and the examples\<close>

lemma fetchContributionStats_total:
  "\<exists>s. fetchContributionStats p username = Inr s"
  by (simp add: fetchContributionStats_def split: sum.splits)

lemma getRepoReadme_total:
  "\<exists>readme. getRepoReadme p owner repo token = Inr readme"
  by (simp add: getRepoReadme_def split: sum.splits)

lemma getRepoReadme_null:
  "fetchGitHub (fetch_readme p) (readme_url owner repo) token = Inl e \<Longrightarrow>
   getRepoReadme p owner repo token = Inr None"
  by (simp add: getRepoReadme_def getRepoReadme_try_def)

lemma getRepoReadme_text:
  assumes "getRepoReadme p owner repo token = Inr (Some s)"
  shows "length s \<le> 2000 \<and>
         (\<exists>data decoded.
            fetchGitHub (fetch_readme p) (readme_url owner repo) token = Inr data \<and>
            encoding data = ''base64'' \<and> content data \<noteq> [] \<and>
            atob p (remove_newlines (content data)) = Inr decoded \<and>
            s = take 2000 decoded)"
  using assms
  by (auto simp: getRepoReadme_def getRepoReadme_try_def split: sum.splits if_splits)

lemma getRepoReadme_attached:
  assumes "fetchGitHub (fetch_readme p) (readme_url owner repo) token = Inr file"
    and "encoding file = ''base64''" and "content file \<noteq> []"
    and "atob p (remove_newlines (content file)) = Inr decoded"
  shows "getRepoReadme p owner repo token = Inr (Some (take 2000 decoded))"
  using assms by (simp add: getRepoReadme_def getRepoReadme_try_def)

lemma Promise_all_Inr:
  "\<forall>x \<in> set xs. f x = Inr (g x) \<Longrightarrow> Promise_all (map f xs) = Inr (map g xs)"
  by (induction xs) simp_all

lemma attach_readme_Inr:
  "attach_readme p usr token (i, r) =
     Inr (if i < 3 then r\<lparr>readmeContent := Some (projr (getRepoReadme p (login usr) (name r) token))\<rparr>
          else r)"
  using getRepoReadme_total [of p "login usr" "name r" token]
  by (auto simp: attach_readme_def)

lemma fetchFullProfileData_repos:
  assumes "getUserProfile p username token = Inr usr" and "getUserRepos p username token = Inr rs"
  shows "fetchFullProfileData p username token =
     Inr \<lparr>user = usr,
          repos = map (\<lambda>(i, r). if i < 3
                    then r\<lparr>readmeContent := Some (projr (getRepoReadme p (login usr) (name r) token))\<rparr>
                    else r) (enumerate 0 rs),
          stats = projr (fetchContributionStats p username)\<rparr>"
proof -
  obtain s where s: "fetchContributionStats p username = Inr s"
    using fetchContributionStats_total by blast
  have "Promise_all (map (attach_readme p usr token) (enumerate 0 rs)) =
      Inr (map (\<lambda>(i, r). if i < 3
                    then r\<lparr>readmeContent := Some (projr (getRepoReadme p (login usr) (name r) token))\<rparr>
                    else r) (enumerate 0 rs))"
    by (rule Promise_all_Inr) (auto simp: attach_readme_Inr)
  with assms s show ?thesis by (simp add: fetchFullProfileData_def)
qed

lemmas example_eval = example_platform_def getUserProfile_def getUserRepos_def fetchGitHub_def
  request_headers_def BASE_URL_def ok_response_def status_response_def ok_def

lemma example_profile:
  "getUserProfile (example_platform rs reply) ''octocat'' None = Inr octocat"
  by (simp add: example_eval)

lemma example_repos:
  "getUserRepos (example_platform rs reply) ''octocat'' None = Inr rs"
  by (simp add: example_eval)

lemma example_stats:
  "fetchContributionStats (example_platform rs reply) ''octocat'' = Inr zero_stats"
  by (simp add: fetchContributionStats_def fetchContributionStats_try_def example_platform_def)

lemma example_readmes:
  "getRepoReadme (example_platform rs reply) ''octocat'' ''hello'' None = Inr (Some ''Hello'')"
  "getRepoReadme (example_platform rs reply) ''octocat'' ''bare'' None = Inr None"
  "getRepoReadme (example_platform rs reply) ''octocat'' ''legacy'' None = Inr None"
  by (simp_all add: getRepoReadme_def getRepoReadme_try_def readme_url_def example_eval
      remove_newlines_def example_atob_def)

lemma aggregation_example:
  "fetchFullProfileData (example_platform four_repos reply) ''octocat'' None =
     Inr \<lparr>user = octocat,
          repos = [(repo_named ''hello'')\<lparr>readmeContent := Some (Some ''Hello'')\<rparr>,
                   (repo_named ''bare'')\<lparr>readmeContent := Some None\<rparr>,
                   (repo_named ''legacy'')\<lparr>readmeContent := Some None\<rparr>,
                   repo_named ''fourth''],
          stats = zero_stats\<rparr>"
proof -
  note s = example_stats
  have n: "name (repo_named n) = n" for n by (simp add: repo_named_def)
  have l: "login octocat = ''octocat''" by (simp add: octocat_def)
  show ?thesis
    by (simp add: fetchFullProfileData_def example_profile example_repos s four_repos_def
        enumerate_eq_zip upt_rec attach_readme_def l n example_readmes)
qed

section \<open>The claims about the contribution statistics\<close>

text \<open>
  \<^bold>\<open>C4.\<close> In the backward scan an entry without contributions dated today is skipped
  and the scan goes on, and such an entry of any other day ends the scan. For the series
  \<open>[(d-1, 1), (d, 0)]\<close> with \<open>d\<close> today the current streak is 1; for
  \<open>[(d-2, 1), (d-1, 0), (d, 0)]\<close> it is 0.
\<close>

theorem today_zero_skipped:
  "(serves p username tot [\<lparr>date = d1, count = 1\<rparr>, \<lparr>date = today p, count = 0\<rparr>] \<and>
      Date_getTime p d1 < Date_getTime p (today p) \<longrightarrow>
      (\<exists>s. fetchContributionStats p username = Inr s \<and> currentStreak s = 1)) \<and>
   (serves p username tot
        [\<lparr>date = d2, count = 1\<rparr>, \<lparr>date = d1, count = 0\<rparr>, \<lparr>date = today p, count = 0\<rparr>] \<and>
      Date_getTime p d2 < Date_getTime p d1 \<and> Date_getTime p d1 < Date_getTime p (today p) \<longrightarrow>
      (\<exists>s. fetchContributionStats p username = Inr s \<and> currentStreak s = 0)) \<and>
   (\<not> count (cs ! i) > 0 \<longrightarrow>
      for_backward td cs (Suc i) a =
        (if date (cs ! i) = td then for_backward td cs i a else a))"
proof (intro conjI impI)
  assume "serves p username tot [\<lparr>date = d1, count = 1\<rparr>, \<lparr>date = today p, count = 0\<rparr>] \<and>
    Date_getTime p d1 < Date_getTime p (today p)"
  then have s: "serves p username tot [\<lparr>date = d1, count = 1\<rparr>, \<lparr>date = today p, count = 0\<rparr>]"
    and lt: "Date_getTime p d1 < Date_getTime p (today p)"
    by simp_all
  from fetchContributionStats_serves [OF s] compute_stats_today_skipped [OF lt]
  show "\<exists>s. fetchContributionStats p username = Inr s \<and> currentStreak s = 1"
    by simp
next
  assume "serves p username tot
      [\<lparr>date = d2, count = 1\<rparr>, \<lparr>date = d1, count = 0\<rparr>, \<lparr>date = today p, count = 0\<rparr>] \<and>
    Date_getTime p d2 < Date_getTime p d1 \<and> Date_getTime p d1 < Date_getTime p (today p)"
  then have s: "serves p username tot
      [\<lparr>date = d2, count = 1\<rparr>, \<lparr>date = d1, count = 0\<rparr>, \<lparr>date = today p, count = 0\<rparr>]"
    and lt: "Date_getTime p d2 < Date_getTime p d1" "Date_getTime p d1 < Date_getTime p (today p)"
    by simp_all
  from fetchContributionStats_serves [OF s] compute_stats_yesterday_breaks [OF lt]
  show "\<exists>s. fetchContributionStats p username = Inr s \<and> currentStreak s = 0"
    by simp
next
  assume "\<not> count (cs ! i) > 0"
  then show "for_backward td cs (Suc i) a =
      (if date (cs ! i) = td then for_backward td cs i a else a)"
    by simp
qed

theorem today_zero_skipped_witness:
  "serves (octocat_platform (ok_body [] two_days) ''2024-03-10'') ''octocat'' [] two_days \<and>
   iso_getTime ''2024-03-09'' < iso_getTime ''2024-03-10'' \<and>
   (\<exists>s. fetchContributionStats (octocat_platform (ok_body [] two_days) ''2024-03-10'') ''octocat'' = Inr s \<and>
        currentStreak s = 1) \<and>
   serves (octocat_platform (ok_body [] three_days) ''2024-03-10'') ''octocat'' [] three_days \<and>
   iso_getTime ''2024-03-08'' < iso_getTime ''2024-03-09'' \<and>
   (\<exists>s. fetchContributionStats (octocat_platform (ok_body [] three_days) ''2024-03-10'') ''octocat'' = Inr s \<and>
        currentStreak s = 0) \<and>
   \<not> count (three_days ! 2) > 0 \<and> date (three_days ! 2) = ''2024-03-10'' \<and>
   for_backward ''2024-03-10'' three_days (Suc 2) 0 = for_backward ''2024-03-10'' three_days 2 0 \<and>
   \<not> count (three_days ! 1) > 0 \<and> date (three_days ! 1) \<noteq> ''2024-03-10'' \<and>
   for_backward ''2024-03-10'' three_days (Suc 1) 0 = 0"
proof -
  let ?p2 = "octocat_platform (ok_body [] two_days) ''2024-03-10''"
  let ?p3 = "octocat_platform (ok_body [] three_days) ''2024-03-10''"
  have g: "Date_getTime (octocat_platform r ''2024-03-10'') = iso_getTime"
    and t: "today (octocat_platform r ''2024-03-10'') = ''2024-03-10''" for r
    by (simp_all add: octocat_platform_def)
  have lt: "iso_getTime ''2024-03-09'' < iso_getTime ''2024-03-10''"
    "iso_getTime ''2024-03-08'' < iso_getTime ''2024-03-09''"
    by (simp_all add: iso_eval)
  have s2: "serves ?p2 ''octocat'' [] [\<lparr>date = ''2024-03-09'', count = 1\<rparr>, \<lparr>date = today ?p2, count = 0\<rparr>]"
    using serves_octocat [of "[]" two_days "''2024-03-10''"] by (simp add: two_days_def t)
  have s3: "serves ?p3 ''octocat'' []
      [\<lparr>date = ''2024-03-08'', count = 1\<rparr>, \<lparr>date = ''2024-03-09'', count = 0\<rparr>,
       \<lparr>date = today ?p3, count = 0\<rparr>]"
    using serves_octocat [of "[]" three_days "''2024-03-10''"] by (simp add: three_days_def t)
  note T2 = today_zero_skipped [of ?p2 "''octocat''" "[]" "''2024-03-09''" "''2024-03-08''"
      three_days 2 "''2024-03-10''" 0]
  note T3 = today_zero_skipped [of ?p3 "''octocat''" "[]" "''2024-03-09''" "''2024-03-08''"
      three_days 1 "''2024-03-10''" 0]
  from T2 [THEN conjunct1] s2 lt
  have c1: "\<exists>s. fetchContributionStats ?p2 ''octocat'' = Inr s \<and> currentStreak s = 1"
    by (simp add: g t)
  from T3 [THEN conjunct2, THEN conjunct1] s3 lt
  have c2: "\<exists>s. fetchContributionStats ?p3 ''octocat'' = Inr s \<and> currentStreak s = 0"
    by (simp add: g t)
  have e2: "\<not> count (three_days ! 2) > 0" "date (three_days ! 2) = ''2024-03-10''"
    by (simp_all add: three_days_def)
  have e1: "\<not> count (three_days ! 1) > 0" "date (three_days ! 1) \<noteq> ''2024-03-10''"
    by (simp_all add: three_days_def)
  from T2 [THEN conjunct2, THEN conjunct2] e2
  have c3: "for_backward ''2024-03-10'' three_days (Suc 2) 0 = for_backward ''2024-03-10'' three_days 2 0"
    by (simp only: if_True simp_thms)
  from T3 [THEN conjunct2, THEN conjunct2] e1
  have c4: "for_backward ''2024-03-10'' three_days (Suc 1) 0 = 0"
    by (simp only: if_False simp_thms)
  from c1 c2 c3 c4 e1 e2 lt serves_octocat show ?thesis
    by (intro conjI) assumption+
qed

text \<open>
  \<^bold>\<open>C5.\<close> For every payload that is fetched and parsed, \<open>totalContributions\<close> is the
  sum of the values of the per-year map, whatever the daily series is.
\<close>

theorem total_is_sum:
  assumes "serves p username tot cs"
  shows "\<exists>s. fetchContributionStats p username = Inr s \<and> totalContributions s = sum_list (map snd tot)"
  using fetchContributionStats_serves [OF assms] totalContributions_compute_stats by simp

theorem total_is_sum_witness:
  "serves (octocat_platform (ok_body [(''2023'', 40), (''2024'', 2)] mixed_days) ''2024-03-10'') ''octocat''
     [(''2023'', 40), (''2024'', 2)] mixed_days \<and>
   (\<exists>s. fetchContributionStats
          (octocat_platform (ok_body [(''2023'', 40), (''2024'', 2)] mixed_days) ''2024-03-10'') ''octocat'' =
          Inr s \<and>
        totalContributions s = 42)"
  using total_is_sum [OF serves_octocat [of "[(''2023'', 40), (''2024'', 2)]" mixed_days "''2024-03-10''"]]
    serves_octocat [of "[(''2023'', 40), (''2024'', 2)]" mixed_days "''2024-03-10''"]
  by simp

text \<open>
  \<^bold>\<open>C6.\<close> \<^verbatim>\<open>fetchContributionStats\<close> never fails its caller, and when the upstream
  request or the parse fails it returns the record of three zeros.
\<close>

theorem stats_degrade:
  "(\<exists>s. fetchContributionStats p username = Inr s) \<and>
   (upstream_failed p username \<longrightarrow>
      fetchContributionStats p username =
        Inr \<lparr>totalContributions = 0, longestStreak = 0, currentStreak = 0\<rparr>)"
  by (auto simp: fetchContributionStats_def fetchContributionStats_try_def upstream_failed_def
      zero_stats_def split: sum.splits option.splits)

theorem stats_degrade_witness:
  "upstream_failed (octocat_platform (Inl (TypeError ''Failed to fetch'')) ''2024-03-10'') ''octocat'' \<and>
   fetchContributionStats (octocat_platform (Inl (TypeError ''Failed to fetch'')) ''2024-03-10'') ''octocat'' =
     Inr \<lparr>totalContributions = 0, longestStreak = 0, currentStreak = 0\<rparr> \<and>
   upstream_failed
     (octocat_platform (Inr \<lparr>status = 500, statusText = ''Internal Server Error'',
        json = Inr \<lparr>total = Some [(''2024'', 7)], contributions = Some busy_days\<rparr>\<rparr>) ''2024-03-10'')
     ''octocat'' \<and>
   fetchContributionStats
     (octocat_platform (Inr \<lparr>status = 500, statusText = ''Internal Server Error'',
        json = Inr \<lparr>total = Some [(''2024'', 7)], contributions = Some busy_days\<rparr>\<rparr>) ''2024-03-10'')
     ''octocat'' =
     Inr \<lparr>totalContributions = 0, longestStreak = 0, currentStreak = 0\<rparr> \<and>
   upstream_failed
     (octocat_platform (Inr \<lparr>status = 200, statusText = ''OK'',
        json = Inl (Thrown ''SyntaxError'' ''Unexpected token'')\<rparr>) ''2024-03-10'')
     ''octocat'' \<and>
   fetchContributionStats
     (octocat_platform (Inr \<lparr>status = 200, statusText = ''OK'',
        json = Inl (Thrown ''SyntaxError'' ''Unexpected token'')\<rparr>) ''2024-03-10'')
     ''octocat'' =
     Inr \<lparr>totalContributions = 0, longestStreak = 0, currentStreak = 0\<rparr>"
proof -
  have 1: "upstream_failed (octocat_platform (Inl (TypeError ''Failed to fetch'')) ''2024-03-10'') ''octocat''"
    by (simp add: upstream_failed_def octocat_platform_def)
  have 2: "upstream_failed
     (octocat_platform (Inr \<lparr>status = 500, statusText = ''Internal Server Error'',
        json = Inr \<lparr>total = Some [(''2024'', 7)], contributions = Some busy_days\<rparr>\<rparr>) ''2024-03-10'')
     ''octocat''"
    by (simp add: upstream_failed_def octocat_platform_def ok_def)
  have 3: "upstream_failed
     (octocat_platform (Inr \<lparr>status = 200, statusText = ''OK'',
        json = Inl (Thrown ''SyntaxError'' ''Unexpected token'')\<rparr>) ''2024-03-10'')
     ''octocat''"
    by (simp add: upstream_failed_def octocat_platform_def ok_def)
  from 1 2 3 stats_degrade [of "octocat_platform (Inl (TypeError ''Failed to fetch'')) ''2024-03-10''" "''octocat''"]
    stats_degrade [of "octocat_platform (Inr \<lparr>status = 500, statusText = ''Internal Server Error'',
        json = Inr \<lparr>total = Some [(''2024'', 7)], contributions = Some busy_days\<rparr>\<rparr>) ''2024-03-10''" "''octocat''"]
    stats_degrade [of "octocat_platform (Inr \<lparr>status = 200, statusText = ''OK'',
        json = Inl (Thrown ''SyntaxError'' ''Unexpected token'')\<rparr>) ''2024-03-10''" "''octocat''"]
  show ?thesis by blast
qed

text \<open>
  \<^bold>\<open>C8.\<close> For a series whose counts are all zero (the empty series too) the longest and
  the current streak are 0; for a series of length \<open>N\<close> whose counts are all positive both
  are \<open>N\<close>.
\<close>

theorem streaks_uniform:
  assumes "serves p username tot cs"
  shows "((\<forall>c \<in> set cs. count c = 0) \<longrightarrow>
            (\<exists>s. fetchContributionStats p username = Inr s \<and> longestStreak s = 0 \<and> currentStreak s = 0)) \<and>
         ((\<forall>c \<in> set cs. count c > 0) \<longrightarrow>
            (\<exists>s. fetchContributionStats p username = Inr s \<and>
                 longestStreak s = int (length cs) \<and> currentStreak s = int (length cs)))"
  using fetchContributionStats_serves [OF assms] compute_stats_all_zero compute_stats_all_positive
  by simp

theorem streaks_uniform_witness:
  "serves (octocat_platform (ok_body [] []) ''2024-03-10'') ''octocat'' [] [] \<and>
   list_all (\<lambda>c. count c = 0) [] \<and>
   (\<exists>s. fetchContributionStats (octocat_platform (ok_body [] []) ''2024-03-10'') ''octocat'' = Inr s \<and>
        longestStreak s = 0 \<and> currentStreak s = 0) \<and>
   serves (octocat_platform (ok_body [] quiet_days) ''2024-03-10'') ''octocat'' [] quiet_days \<and>
   list_all (\<lambda>c. count c = 0) quiet_days \<and>
   (\<exists>s. fetchContributionStats (octocat_platform (ok_body [] quiet_days) ''2024-03-10'') ''octocat'' = Inr s \<and>
        longestStreak s = 0 \<and> currentStreak s = 0) \<and>
   serves (octocat_platform (ok_body [] busy_days) ''2024-03-10'') ''octocat'' [] busy_days \<and>
   list_all (\<lambda>c. count c > 0) busy_days \<and>
   (\<exists>s. fetchContributionStats (octocat_platform (ok_body [] busy_days) ''2024-03-10'') ''octocat'' = Inr s \<and>
        longestStreak s = 3 \<and> currentStreak s = 3)"
proof -
  have q: "\<forall>c \<in> set quiet_days. count c = 0" by (simp add: quiet_days_def)
  have b: "\<forall>c \<in> set busy_days. count c > 0" by (simp add: busy_days_def)
  have n: "int (length busy_days) = 3" by (simp add: busy_days_def)
  from streaks_uniform [OF serves_octocat [of "[]" "[]" "''2024-03-10''"]]
    streaks_uniform [OF serves_octocat [of "[]" quiet_days "''2024-03-10''"]]
    streaks_uniform [OF serves_octocat [of "[]" busy_days "''2024-03-10''"]]
    q b n serves_octocat
  show ?thesis by (simp add: list_all_iff)
qed

text \<open>
  \<^bold>\<open>C9.\<close> For a series with pairwise distinct dates, told apart by the date parser, none
  later than today, the current streak is at most the longest streak and both are
  non-negative; \<open>totalContributions\<close> is non-negative when every value of the per-year map
  is. Without that condition on the map the total can be negative, as the example after the
  theorem shows.
\<close>

theorem streak_order:
  assumes "serves p username tot cs"
    and "distinct (map date cs)"
    and "inj_on (Date_getTime p) (date ` set cs)"
    and "\<forall>c \<in> set cs. Date_getTime p (date c) \<le> Date_getTime p (today p)"
  shows "\<exists>s. fetchContributionStats p username = Inr s \<and>
             currentStreak s \<le> longestStreak s \<and>
             0 \<le> longestStreak s \<and> 0 \<le> currentStreak s \<and>
             ((\<forall>v \<in> set (map snd tot). 0 \<le> v) \<longrightarrow> 0 \<le> totalContributions s)"
proof -
  let ?g = "Date_getTime p"
  let ?s = "compute_stats ?g (today p) tot cs"
  from assms(2,3) have dist: "distinct (map (\<lambda>c. ?g (date c)) cs)"
    by (rule distinct_times)
  from dist assms(4) have "currentStreak ?s \<le> longestStreak ?s"
    by (rule compute_stats_current_le_longest)
  moreover have "(\<forall>v \<in> set (map snd tot). 0 \<le> v) \<longrightarrow> 0 \<le> totalContributions ?s"
    by (simp add: totalContributions_compute_stats sum_values_nonneg)
  ultimately show ?thesis
    using fetchContributionStats_serves [OF assms(1)] compute_stats_streaks_nonneg [of ?g "today p" tot cs]
    by simp
qed

theorem streak_order_witness:
  "serves (octocat_platform (ok_body [(''2024'', 7)] mixed_days) ''2024-03-10'') ''octocat''
     [(''2024'', 7)] mixed_days \<and>
   distinct (map date mixed_days) \<and>
   inj_on iso_getTime (date ` set mixed_days) \<and>
   list_all (\<lambda>c. iso_getTime (date c) \<le> iso_getTime ''2024-03-10'') mixed_days \<and>
   list_all (\<lambda>v. 0 \<le> v) (map snd [(''2024'', 7::int)]) \<and>
   (\<exists>s. fetchContributionStats (octocat_platform (ok_body [(''2024'', 7)] mixed_days) ''2024-03-10'')
          ''octocat'' = Inr s \<and>
        currentStreak s \<le> longestStreak s \<and> 0 \<le> longestStreak s \<and> 0 \<le> currentStreak s \<and>
        0 \<le> totalContributions s)"
proof -
  let ?p = "octocat_platform (ok_body [(''2024'', 7)] mixed_days) ''2024-03-10''"
  have g: "Date_getTime ?p = iso_getTime" and t: "today ?p = ''2024-03-10''"
    by (simp_all add: octocat_platform_def)
  have s: "serves ?p ''octocat'' [(''2024'', 7)] mixed_days" by (rule serves_octocat)
  from streak_order [OF s, unfolded g t, OF mixed_days_facts] s mixed_days_facts
  show ?thesis by (simp add: list_all_iff)
qed

theorem total_sign_counterexample:
  "fetchContributionStats
     (octocat_platform (ok_body [(''2024'', - 5)] [\<lparr>date = ''2024-03-09'', count = 1\<rparr>]) ''2024-03-10'')
     ''octocat'' =
     Inr \<lparr>totalContributions = - 5, longestStreak = 1, currentStreak = 1\<rparr> \<and>
   \<not> (0::int) \<le> - 5"
  by (simp add: fetchContributionStats_def fetchContributionStats_try_def octocat_platform_def
      ok_body_def ok_def compute_stats_def sort_by_date_def reduce_add_def Object_values_def)

text \<open>
  \<^bold>\<open>C10.\<close> Two series that are permutations of each other, with pairwise distinct dates
  told apart by the date parser, give the same statistics.
\<close>

theorem permutation_invariant:
  assumes "serves p username tot cs" and "serves p' username' tot cs'"
    and "Date_getTime p' = Date_getTime p" and "today p' = today p"
    and "mset cs = mset cs'"
    and "distinct (map date cs)"
    and "inj_on (Date_getTime p) (date ` set cs)"
  shows "fetchContributionStats p username = fetchContributionStats p' username'"
proof -
  let ?g = "Date_getTime p"
  from assms(6,7) have dist: "distinct (map (\<lambda>c. ?g (date c)) cs)"
    by (rule distinct_times)
  from assms(5) dist have "sort_by_date ?g cs = sort_by_date ?g cs'"
    by (rule sort_by_date_permutation)
  then have "compute_stats ?g (today p) tot cs = compute_stats ?g (today p) tot cs'"
    by (simp add: compute_stats_def)
  with fetchContributionStats_serves [OF assms(1)] fetchContributionStats_serves [OF assms(2)]
  show ?thesis by (simp add: assms(3,4))
qed

theorem permutation_invariant_witness:
  "serves (octocat_platform (ok_body [(''2024'', 7)] mixed_days) ''2024-03-10'') ''octocat''
     [(''2024'', 7)] mixed_days \<and>
   serves (octocat_platform (ok_body [(''2024'', 7)] (rev mixed_days)) ''2024-03-10'') ''octocat''
     [(''2024'', 7)] (rev mixed_days) \<and>
   mset mixed_days = mset (rev mixed_days) \<and>
   distinct (map date mixed_days) \<and>
   inj_on iso_getTime (date ` set mixed_days) \<and>
   fetchContributionStats (octocat_platform (ok_body [(''2024'', 7)] mixed_days) ''2024-03-10'') ''octocat'' =
   fetchContributionStats (octocat_platform (ok_body [(''2024'', 7)] (rev mixed_days)) ''2024-03-10'') ''octocat''"
proof -
  let ?p = "octocat_platform (ok_body [(''2024'', 7)] mixed_days) ''2024-03-10''"
  let ?p' = "octocat_platform (ok_body [(''2024'', 7)] (rev mixed_days)) ''2024-03-10''"
  have g: "Date_getTime ?p' = Date_getTime ?p" and t: "today ?p' = today ?p"
    and i: "Date_getTime ?p = iso_getTime"
    by (simp_all add: octocat_platform_def)
  have m: "mset mixed_days = mset (rev mixed_days)" by simp
  have inj: "inj_on (Date_getTime ?p) (date ` set mixed_days)"
    by (simp only: i mixed_days_facts)
  from permutation_invariant [OF serves_octocat serves_octocat g t m mixed_days_facts(1) inj]
    serves_octocat m mixed_days_facts
  show ?thesis by simp
qed

section \<open>The claim about the fetch wrapper\<close>

text \<open>
  \<^bold>\<open>C2.\<close> A response with status 404 makes \<^verbatim>\<open>fetchGitHub\<close> fail with the message
  that the resource was not found, one with status 403 or 429 with the rate limit message,
  and any other status outside 200 to 299 with a message that carries the status text. All
  three failures are plain \<^verbatim>\<open>Error\<close> objects: they differ in the message and not in
  the kind of the error, as the example after the theorem shows.
\<close>

theorem fetchGitHub_failures:
  assumes "fetch url (request_headers token) = Inr r" and "\<not> ok r"
  shows "(status r = 404 \<longrightarrow>
            fetchGitHub fetch url token = Inl (Thrown ''Error'' ''User or resource not found.'')) \<and>
         (status r = 403 \<or> status r = 429 \<longrightarrow>
            fetchGitHub fetch url token =
              Inl (Thrown ''Error''
                ''GitHub API rate limit exceeded. Please try again later or provide a token.'')) \<and>
         (status r \<noteq> 404 \<and> status r \<noteq> 403 \<and> status r \<noteq> 429 \<longrightarrow>
            fetchGitHub fetch url token =
              Inl (Thrown ''Error'' (''GitHub API Error: '' @ statusText r))) \<and>
         failure_name (fetchGitHub fetch url token) = Some ''Error''"
  using assms by (simp add: fetchGitHub_def new_Error_def failure_name_def)

theorem fetchGitHub_failures_witness:
  "answer (status_response 404 ''Not Found'') ''https://api.github.com/users/ghost'' (request_headers None) =
     (Inr (status_response 404 ''Not Found'') :: js_error + GitHubUser response) \<and>
   \<not> ok (status_response 404 ''Not Found'' :: GitHubUser response) \<and>
   fetchGitHub (answer (status_response 404 ''Not Found'')) ''https://api.github.com/users/ghost'' None =
     (Inl (Thrown ''Error'' ''User or resource not found.'') :: js_error + GitHubUser) \<and>
   \<not> ok (status_response 403 ''Forbidden'' :: GitHubUser response) \<and>
   fetchGitHub (answer (status_response 403 ''Forbidden'')) ''https://api.github.com/users/ghost'' None =
     (Inl (Thrown ''Error''
        ''GitHub API rate limit exceeded. Please try again later or provide a token.'')
      :: js_error + GitHubUser) \<and>
   \<not> ok (status_response 500 ''Internal Server Error'' :: GitHubUser response) \<and>
   fetchGitHub (answer (status_response 500 ''Internal Server Error''))
       ''https://api.github.com/users/ghost'' None =
     (Inl (Thrown ''Error'' ''GitHub API Error: Internal Server Error'') :: js_error + GitHubUser)"
proof -
  have a: "answer r url (request_headers None) = Inr r" for r :: "GitHubUser response" and url
    by (simp add: answer_def)
  have n: "\<not> ok (status_response 404 ''Not Found'' :: GitHubUser response)"
    "\<not> ok (status_response 403 ''Forbidden'' :: GitHubUser response)"
    "\<not> ok (status_response 500 ''Internal Server Error'' :: GitHubUser response)"
    by (simp_all add: ok_def status_response_def)
  have s: "status (status_response c t :: GitHubUser response) = c"
    "statusText (status_response c t :: GitHubUser response) = t" for c t
    by (simp_all add: status_response_def)
  let ?u = "''https://api.github.com/users/ghost''"
  let ?r1 = "status_response 404 ''Not Found'' :: GitHubUser response"
  let ?r2 = "status_response 403 ''Forbidden'' :: GitHubUser response"
  let ?r3 = "status_response 500 ''Internal Server Error'' :: GitHubUser response"
  from fetchGitHub_failures [of "answer ?r1" ?u None ?r1, OF a n(1)]
    fetchGitHub_failures [of "answer ?r2" ?u None ?r2, OF a n(2)]
    fetchGitHub_failures [of "answer ?r3" ?u None ?r3, OF a n(3)] a n
  show ?thesis by (simp add: s)
qed

theorem error_kind_counterexample:
  "fetchGitHub (answer (status_response 404 ''Not Found'')) ''https://api.github.com/users/ghost'' None =
     (Inl (Thrown ''Error'' ''User or resource not found.'') :: js_error + GitHubUser) \<and>
   fetchGitHub (answer (status_response 403 ''Forbidden'')) ''https://api.github.com/users/ghost'' None =
     (Inl (Thrown ''Error''
        ''GitHub API rate limit exceeded. Please try again later or provide a token.'')
      :: js_error + GitHubUser) \<and>
   failure_name (fetchGitHub (answer (status_response 404 ''Not Found''))
       ''https://api.github.com/users/ghost'' None :: js_error + GitHubUser) =
   failure_name (fetchGitHub (answer (status_response 403 ''Forbidden''))
       ''https://api.github.com/users/ghost'' None :: js_error + GitHubUser)"
  by (simp add: fetchGitHub_def answer_def status_response_def ok_def new_Error_def failure_name_def)

section \<open>The claims about the aggregation\<close>

text \<open>
  \<^bold>\<open>C7.\<close> When the profile and the repository list are fetched, the aggregation returns
  whatever the README requests do, with every repository in its place. Each of the first
  three repositories gets a \<^verbatim>\<open>readmeContent\<close>: \<^verbatim>\<open>null\<close> when the README request
  fails; the base64-decoded content cut to 2000 characters when the request succeeds with a
  non-empty base64 content that decodes; and whenever it is a string, it is such a decoded
  content and has at most 2000 characters. The repositories from index 3 on are returned as
  they came.
\<close>

theorem readme_failures_tolerated:
  assumes "getUserProfile p username token = Inr usr" and "getUserRepos p username token = Inr rs"
  shows "\<exists>d. fetchFullProfileData p username token = Inr d \<and> length (repos d) = length rs \<and>
     (\<forall>i < length rs.
        (3 \<le> i \<longrightarrow> repos d ! i = rs ! i) \<and>
        (i < 3 \<longrightarrow>
           (\<exists>readme. repos d ! i = (rs ! i)\<lparr>readmeContent := Some readme\<rparr> \<and>
              ((\<exists>e. fetchGitHub (fetch_readme p) (readme_url (login usr) (name (rs ! i))) token = Inl e)
                 \<longrightarrow> readme = None) \<and>
              (\<forall>data decoded.
                 fetchGitHub (fetch_readme p) (readme_url (login usr) (name (rs ! i))) token = Inr data \<and>
                 encoding data = ''base64'' \<and> content data \<noteq> [] \<and>
                 atob p (remove_newlines (content data)) = Inr decoded
                 \<longrightarrow> readme = Some (take 2000 decoded)) \<and>
              (\<forall>s. readme = Some s \<longrightarrow>
                 length s \<le> 2000 \<and>
                 (\<exists>data decoded.
                    fetchGitHub (fetch_readme p) (readme_url (login usr) (name (rs ! i))) token = Inr data \<and>
                    encoding data = ''base64'' \<and> content data \<noteq> [] \<and>
                    atob p (remove_newlines (content data)) = Inr decoded \<and>
                    s = take 2000 decoded)))))"
proof -
  let ?att = "\<lambda>(i, r). if i < 3
      then r\<lparr>readmeContent := Some (projr (getRepoReadme p (login usr) (name r) token))\<rparr>
      else r"
  let ?d = "\<lparr>user = usr, repos = map ?att (enumerate 0 rs),
      stats = projr (fetchContributionStats p username)\<rparr>"
  have d: "fetchFullProfileData p username token = Inr ?d"
    using assms by (rule fetchFullProfileData_repos)
  show ?thesis
  proof (intro exI [of _ ?d] conjI allI impI)
    show "fetchFullProfileData p username token = Inr ?d" by (rule d)
  next
    show "length (repos ?d) = length rs" by simp
  next
    fix i assume "i < length rs" and "3 \<le> i"
    then show "repos ?d ! i = rs ! i" by (simp add: nth_enumerate_eq)
  next
    fix i assume i: "i < length rs" and i3: "i < 3"
    let ?req = "fetchGitHub (fetch_readme p) (readme_url (login usr) (name (rs ! i))) token"
    obtain readme where r: "getRepoReadme p (login usr) (name (rs ! i)) token = Inr readme"
      using getRepoReadme_total by blast
    have 1: "repos ?d ! i = (rs ! i)\<lparr>readmeContent := Some readme\<rparr>"
      using i i3 by (simp add: nth_enumerate_eq r)
    have 2: "(\<exists>e. ?req = Inl e) \<longrightarrow> readme = None"
      using r getRepoReadme_null [of p "login usr" "name (rs ! i)" token] by auto
    have 3: "\<forall>data decoded.
        ?req = Inr data \<and> encoding data = ''base64'' \<and> content data \<noteq> [] \<and>
        atob p (remove_newlines (content data)) = Inr decoded
        \<longrightarrow> readme = Some (take 2000 decoded)"
      using r getRepoReadme_attached [of p "login usr" "name (rs ! i)" token] by auto
    have 4: "\<forall>s. readme = Some s \<longrightarrow>
        length s \<le> 2000 \<and>
        (\<exists>data decoded.
           ?req = Inr data \<and> encoding data = ''base64'' \<and> content data \<noteq> [] \<and>
           atob p (remove_newlines (content data)) = Inr decoded \<and> s = take 2000 decoded)"
      using r getRepoReadme_text [of p "login usr" "name (rs ! i)" token] by blast
    from 1 2 3 4
    show "\<exists>readme. repos ?d ! i = (rs ! i)\<lparr>readmeContent := Some readme\<rparr> \<and>
        ((\<exists>e. ?req = Inl e) \<longrightarrow> readme = None) \<and>
        (\<forall>data decoded.
           ?req = Inr data \<and> encoding data = ''base64'' \<and> content data \<noteq> [] \<and>
           atob p (remove_newlines (content data)) = Inr decoded
           \<longrightarrow> readme = Some (take 2000 decoded)) \<and>
        (\<forall>s. readme = Some s \<longrightarrow>
           length s \<le> 2000 \<and>
           (\<exists>data decoded.
              ?req = Inr data \<and> encoding data = ''base64'' \<and> content data \<noteq> [] \<and>
              atob p (remove_newlines (content data)) = Inr decoded \<and> s = take 2000 decoded))"
      by blast
  qed
qed

theorem readme_failures_tolerated_witness:
  "getUserProfile (example_platform four_repos None) ''octocat'' None = Inr octocat \<and>
   getUserRepos (example_platform four_repos None) ''octocat'' None = Inr four_repos \<and>
   (\<exists>d. fetchFullProfileData (example_platform four_repos None) ''octocat'' None = Inr d \<and>
        length (repos d) = 4 \<and>
        repos d ! 0 = (repo_named ''hello'')\<lparr>readmeContent := Some (Some ''Hello'')\<rparr> \<and>
        repos d ! 1 = (repo_named ''bare'')\<lparr>readmeContent := Some None\<rparr> \<and>
        repos d ! 2 = (repo_named ''legacy'')\<lparr>readmeContent := Some None\<rparr> \<and>
        repos d ! 3 = repo_named ''fourth'')"
proof -
  let ?p = "example_platform four_repos None"
  let ?req = "\<lambda>i. fetchGitHub (fetch_readme ?p) (readme_url (login octocat) (name (four_repos ! i))) None"
  from readme_failures_tolerated [OF example_profile example_repos, of four_repos None]
  obtain d where d: "fetchFullProfileData ?p ''octocat'' None = Inr d"
    and len: "length (repos d) = length four_repos"
    and each: "\<forall>i < length four_repos.
        (3 \<le> i \<longrightarrow> repos d ! i = four_repos ! i) \<and>
        (i < 3 \<longrightarrow>
           (\<exists>readme. repos d ! i = (four_repos ! i)\<lparr>readmeContent := Some readme\<rparr> \<and>
              ((\<exists>e. ?req i = Inl e) \<longrightarrow> readme = None) \<and>
              (\<forall>data decoded.
                 ?req i = Inr data \<and> encoding data = ''base64'' \<and> content data \<noteq> [] \<and>
                 atob ?p (remove_newlines (content data)) = Inr decoded
                 \<longrightarrow> readme = Some (take 2000 decoded)) \<and>
              (\<forall>s. readme = Some s \<longrightarrow>
                 length s \<le> 2000 \<and>
                 (\<exists>data decoded.
                    ?req i = Inr data \<and> encoding data = ''base64'' \<and> content data \<noteq> [] \<and>
                    atob ?p (remove_newlines (content data)) = Inr decoded \<and>
                    s = take 2000 decoded))))"
    by blast
  have n: "length four_repos = 4" by (simp add: four_repos_def)
  have r0: "?req 0 = Inr \<lparr>content = ''SGVsbG8='' @ [CHR 0x0A], encoding = ''base64''\<rparr>"
    and r1: "?req 1 = Inl (new_Error ''User or resource not found.'')"
    and r2: "?req 2 = Inr \<lparr>content = ''Hello'', encoding = ''utf-8''\<rparr>"
    by (simp_all add: four_repos_def repo_named_def octocat_def readme_url_def example_eval)
  have a: "atob ?p (remove_newlines (''SGVsbG8='' @ [CHR 0x0A])) = Inr ''Hello''"
    by (simp add: example_platform_def example_atob_def remove_newlines_def)
  have low: "\<exists>readme. repos d ! i = (four_repos ! i)\<lparr>readmeContent := Some readme\<rparr> \<and>
      ((\<exists>e. ?req i = Inl e) \<longrightarrow> readme = None) \<and>
      (\<forall>data decoded.
         ?req i = Inr data \<and> encoding data = ''base64'' \<and> content data \<noteq> [] \<and>
         atob ?p (remove_newlines (content data)) = Inr decoded
         \<longrightarrow> readme = Some (take 2000 decoded)) \<and>
      (\<forall>s. readme = Some s \<longrightarrow>
         length s \<le> 2000 \<and>
         (\<exists>data decoded.
            ?req i = Inr data \<and> encoding data = ''base64'' \<and> content data \<noteq> [] \<and>
            atob ?p (remove_newlines (content data)) = Inr decoded \<and>
            s = take 2000 decoded))"
    if "i < 3" for i
    using each [rule_format, of i, THEN conjunct2, rule_format, OF _ that] that n by simp
  from low [of 0] obtain readme0
    where "repos d ! 0 = (four_repos ! 0)\<lparr>readmeContent := Some readme0\<rparr>"
      and "\<forall>data decoded.
        ?req 0 = Inr data \<and> encoding data = ''base64'' \<and> content data \<noteq> [] \<and>
        atob ?p (remove_newlines (content data)) = Inr decoded
        \<longrightarrow> readme0 = Some (take 2000 decoded)"
    by auto
  with r0 a have c0: "repos d ! 0 = (repo_named ''hello'')\<lparr>readmeContent := Some (Some ''Hello'')\<rparr>"
    by (simp add: four_repos_def)
  from low [of 1] obtain readme1
    where "repos d ! 1 = (four_repos ! 1)\<lparr>readmeContent := Some readme1\<rparr>"
      and "(\<exists>e. ?req 1 = Inl e) \<longrightarrow> readme1 = None"
    by auto
  with r1 have c1: "repos d ! 1 = (repo_named ''bare'')\<lparr>readmeContent := Some None\<rparr>"
    by (simp add: four_repos_def)
  from low [of 2] obtain readme2
    where 1: "repos d ! 2 = (four_repos ! 2)\<lparr>readmeContent := Some readme2\<rparr>"
      and 2: "\<forall>s. readme2 = Some s \<longrightarrow>
        length s \<le> 2000 \<and>
        (\<exists>data decoded.
           ?req 2 = Inr data \<and> encoding data = ''base64'' \<and> content data \<noteq> [] \<and>
           atob ?p (remove_newlines (content data)) = Inr decoded \<and> s = take 2000 decoded)"
    by auto
  from 2 r2 have "readme2 = None" by (cases readme2) auto
  with 1 have c2: "repos d ! 2 = (repo_named ''legacy'')\<lparr>readmeContent := Some None\<rparr>"
    by (simp add: four_repos_def)
  from each [rule_format, of 3, THEN conjunct1] n have c3: "repos d ! 3 = repo_named ''fourth''"
    by (simp add: four_repos_def)
  from len n have c4: "length (repos d) = 4" by simp
  from d c0 c1 c2 c3 c4 example_profile example_repos show ?thesis by blast
qed

text \<open>
  \<^bold>\<open>C3.\<close> When the repository list is fetched and is empty, the aggregation returns it
  and the handler fails with the message that there is nothing to analyze, without a call
  of \<^verbatim>\<open>analyzeProfile\<close>.
\<close>

theorem empty_portfolio_stops:
  assumes "getUserProfile p targetUser tok = Inr usr" and "getUserRepos p targetUser tok = Inr []"
    and "tok = (if token = [] then None else Some token)"
  shows "(\<exists>s. fetchFullProfileData p targetUser tok = Inr \<lparr>user = usr, repos = [], stats = s\<rparr>) \<and>
         handleAnalyze p targetUser token st =
           (st\<lparr>state := ERROR, error := Some ''This user has no public repositories to analyze.''\<rparr>,
            [Called_fetchFullProfileData targetUser tok])"
proof -
  from fetchFullProfileData_repos [OF assms(1,2)]
  have d: "fetchFullProfileData p targetUser tok =
      Inr \<lparr>user = usr, repos = [], stats = projr (fetchContributionStats p targetUser)\<rparr>"
    by simp
  then show ?thesis
    by (simp add: handleAnalyze_def handleAnalyze_try_def assms(3) [symmetric] new_Error_def)
qed

theorem empty_portfolio_stops_witness:
  "getUserProfile (example_platform [] (Some partial_text)) ''octocat'' None = Inr octocat \<and>
   getUserRepos (example_platform [] (Some partial_text)) ''octocat'' None = Inr [] \<and>
   fetchFullProfileData (example_platform [] (Some partial_text)) ''octocat'' None =
     Inr \<lparr>user = octocat, repos = [], stats = zero_stats\<rparr> \<and>
   handleAnalyze (example_platform [] (Some partial_text)) ''octocat'' []
       \<lparr>state = IDLE, error = None, data = None\<rparr> =
     (\<lparr>state = ERROR, error = Some ''This user has no public repositories to analyze.'', data = None\<rparr>,
      [Called_fetchFullProfileData ''octocat'' None])"
proof -
  let ?p = "example_platform [] (Some partial_text)"
  have s: "fetchFullProfileData ?p ''octocat'' None = Inr \<lparr>user = octocat, repos = [], stats = zero_stats\<rparr>"
    by (simp add: fetchFullProfileData_def example_profile example_repos example_stats)
  have t: "None = (if ([] :: string) = [] then None else Some [])" by simp
  from empty_portfolio_stops [OF example_profile example_repos t,
      of "Some partial_text" "\<lparr>state = IDLE, error = None, data = None\<rparr>"]
    example_profile example_repos s
  show ?thesis by simp
qed

section \<open>The claim about the assessment\<close>

text \<open>
  \<^bold>\<open>C1.\<close> A response text that parses as JSON and lacks the property
  \<^verbatim>\<open>repoAnalyses\<close> is not rejected: \<^verbatim>\<open>analyzeProfile\<close> returns the parsed value
  as it is. A text that does not parse makes it fail with the error of the parser.
\<close>

theorem analyzeProfile_unchecked:
  assumes "API_KEY p = Some key" and "key \<noteq> []"
    and "generateContent p (promptData usr rs) = Inr (Some text)" and "text \<noteq> []"
  shows "(JSON_parse p text = Inr v \<and> \<not> has_field v ''repoAnalyses'' \<longrightarrow>
            analyzeProfile p usr rs = Inr v) \<and>
         (JSON_parse p text = Inl e \<longrightarrow> analyzeProfile p usr rs = Inl e)"
  using assms by (simp add: analyzeProfile_def)

theorem analyzeProfile_unchecked_witness:
  "API_KEY (example_platform four_repos (Some partial_text)) = Some ''key'' \<and>
   generateContent (example_platform four_repos (Some partial_text)) (promptData octocat four_repos) =
     Inr (Some partial_text) \<and>
   partial_text \<noteq> [] \<and>
   JSON_parse (example_platform four_repos (Some partial_text)) partial_text =
     Inr (JObject [(''profileScore'', JNumber 72)]) \<and>
   \<not> has_field (JObject [(''profileScore'', JNumber 72)]) ''repoAnalyses'' \<and>
   analyzeProfile (example_platform four_repos (Some partial_text)) octocat four_repos =
     Inr (JObject [(''profileScore'', JNumber 72)]) \<and>
   generateContent (example_platform four_repos (Some ''not json'')) (promptData octocat four_repos) =
     Inr (Some ''not json'') \<and>
   JSON_parse (example_platform four_repos (Some ''not json'')) ''not json'' =
     Inl (Thrown ''SyntaxError'' ''Unexpected token'') \<and>
   analyzeProfile (example_platform four_repos (Some ''not json'')) octocat four_repos =
     Inl (Thrown ''SyntaxError'' ''Unexpected token'')"
proof -
  have k: "API_KEY (example_platform four_repos reply) = Some ''key''" "''key'' \<noteq> []" for reply
    by (simp_all add: example_platform_def)
  have g: "generateContent (example_platform four_repos reply) (promptData octocat four_repos) = Inr reply"
    for reply by (simp add: example_platform_def)
  have t: "partial_text \<noteq> []" "''not json'' \<noteq> []" by (simp_all add: partial_text_def)
  have j: "JSON_parse (example_platform four_repos reply) partial_text =
      Inr (JObject [(''profileScore'', JNumber 72)])"
    "JSON_parse (example_platform four_repos reply) ''not json'' =
      Inl (Thrown ''SyntaxError'' ''Unexpected token'')" for reply
    by (simp_all add: example_platform_def example_JSON_parse_def partial_text_def)
  have h: "\<not> has_field (JObject [(''profileScore'', JNumber 72)]) ''repoAnalyses''" by simp
  from analyzeProfile_unchecked [OF k g t(1), of "JObject [(''profileScore'', JNumber 72)]"]
    analyzeProfile_unchecked [OF k g t(2), of _ "Thrown ''SyntaxError'' ''Unexpected token''"]
    k g t j h
  show ?thesis by simp
qed

theorem partial_assessment_counterexample:
  "analyzeProfile (example_platform four_repos (Some partial_text)) octocat four_repos =
     Inr (JObject [(''profileScore'', JNumber 72)]) \<and>
   \<not> has_field (JObject [(''profileScore'', JNumber 72)]) ''repoAnalyses''"
  by (simp add: analyzeProfile_def example_platform_def example_JSON_parse_def partial_text_def)

end
